theory Spec2Isabelle
  imports Complex_Main "HOL-Library.Multiset"
begin

section \<open>Data model of \<open>server.py\<close>\<close>

text \<open>
  A Python \<open>str\<close> is a sequence of Unicode code points. The recipe template of the
  document loader is written in Greek, so a string is modelled as the list of its code
  points; \<open>ascii\<close> embeds the literals of the source that are plain ASCII.
\<close>

type_synonym str = "nat list"

definition ascii :: "string \<Rightarrow> str" where
  "ascii s = map of_char s"

text \<open>\<open>class Message(BaseModel)\<close>; \<open>model_dump()\<close> turns it into a dict with the same
  two keys, which is the same record here.\<close>

record message =
  role :: str
  content :: str

text \<open>\<open>class RequestBody(BaseModel)\<close>.\<close>

record request_body =
  conversation_id :: str
  user_message :: str
  messages :: "message list"

text \<open>
  A conversation is the dict \<open>{"id": ..., "start_time": ..., "messages": [...]}\<close> built
  in \<open>start_new_conversation\<close>. \<open>start_time\<close> is the float read from \<open>time.time()\<close>;
  only its order is used, and every finite float is a real number.
\<close>

record conversation =
  c_id :: str
  start_time :: real
  c_messages :: "message list"

text \<open>
  The exceptions that reach the handlers: the \<open>ValueError\<close> raised by the store, the
  \<open>AttributeError\<close> of a call on \<open>self.index\<close> while it is still \<open>None\<close>, and whatever
  the query engine raises (any class, with its message).
\<close>

datatype exc =
    ValueError str
  | AttributeError str
  | OtherError str str

text \<open>\<open>str(e)\<close>, as used for the \<open>detail\<close> of the HTTP error.\<close>

fun str_of_exc :: "exc \<Rightarrow> str" where
  "str_of_exc (ValueError m) = m"
| "str_of_exc (AttributeError m) = m"
| "str_of_exc (OtherError cls m) = m"

text \<open>
  The state of \<open>class Server\<close>. \<open>index\<close> stands for \<open>self.index\<close> together with
  \<open>self.llm\<close>: once built, it answers a query with a text or raises. \<open>engine_calls\<close> is not
  a field of the source: it records every query handed to the query engine, so that the
  absence of retrieval and generation work can be stated.
\<close>

record server =
  conversations :: "conversation list"
  index :: "(str \<Rightarrow> exc + str) option"
  engine_calls :: "str list"

text \<open>\<open>Server.__init__\<close>.\<close>

definition Server_init :: server where
  "Server_init = \<lparr>conversations = [], index = None, engine_calls = []\<rparr>"

section \<open>Conversation store\<close>

text \<open>The message of the \<open>ValueError\<close> of both lookups:
  \<open>f"Conversation ID {conversation_id} not found."\<close>.\<close>

definition not_found :: "str \<Rightarrow> exc" where
  "not_found i = ValueError (ascii ''Conversation ID '' @ i @ ascii '' not found.'')"

text \<open>The loop of \<open>store_message\<close>: the first conversation with the id gets the message
  appended and the loop returns; \<open>None\<close> is the loop running to its end.\<close>

fun append_to :: "conversation list \<Rightarrow> str \<Rightarrow> message \<Rightarrow> conversation list option" where
  "append_to [] i m = None"
| "append_to (c # cs) i m =
     (if c_id c = i then Some (c\<lparr>c_messages := c_messages c @ [m]\<rparr> # cs)
      else map_option ((#) c) (append_to cs i m))"

definition store_message :: "str \<Rightarrow> message \<Rightarrow> server \<Rightarrow> (exc + unit) \<times> server" where
  "store_message i m s =
     (case append_to (conversations s) i m of
        Some cs \<Rightarrow> (Inr (), s\<lparr>conversations := cs\<rparr>)
      | None \<Rightarrow> (Inl (not_found i), s))"

text \<open>The loop of \<open>get_conversation\<close>.\<close>

fun lookup :: "conversation list \<Rightarrow> str \<Rightarrow> message list option" where
  "lookup [] i = None"
| "lookup (c # cs) i = (if c_id c = i then Some (c_messages c) else lookup cs i)"

definition get_conversation :: "str \<Rightarrow> server \<Rightarrow> exc + message list" where
  "get_conversation i s =
     (case lookup (conversations s) i of
        Some ms \<Rightarrow> Inr ms
      | None \<Rightarrow> Inl (not_found i))"

text \<open>An id is registered when some conversation of the registry carries it.\<close>

definition registered :: "str \<Rightarrow> server \<Rightarrow> bool" where
  "registered i s = (i \<in> c_id ` set (conversations s))"

text \<open>
  \<open>list.sort(key=..., reverse=True)\<close> is a stable sort in descending order of the key:
  elements with equal keys keep their order. CPython obtains it by reversing the list,
  sorting it stably in ascending order and reversing the result; \<open>sort_key\<close> is a stable
  ascending sort.
\<close>

definition sort_reverse :: "('a \<Rightarrow> 'k::linorder) \<Rightarrow> 'a list \<Rightarrow> 'a list" where
  "sort_reverse key xs = rev (sort_key key (rev xs))"

text \<open>
  \<open>start_new_conversation\<close>. The two readings of the environment, \<open>str(uuid.uuid4())\<close> and
  \<open>time.time()\<close>, are arguments. The result is the returned id and the new state.
\<close>

definition start_new_conversation :: "str \<Rightarrow> real \<Rightarrow> server \<Rightarrow> str \<times> server" where
  "start_new_conversation uuid4 now s =
     (uuid4,
      s\<lparr>conversations :=
          sort_reverse start_time
            (conversations s @ [\<lparr>c_id = uuid4, start_time = now, c_messages = []\<rparr>])\<rparr>)"

text \<open>The dict \<open>{"id": ..., "start_time": ...}\<close> of the listing.\<close>

record summary =
  s_id :: str
  s_start_time :: real

definition get_all_conversations :: "server \<Rightarrow> summary list" where
  "get_all_conversations s =
     map (\<lambda>c. \<lparr>s_id = c_id c, s_start_time = start_time c\<rparr>) (conversations s)"

section \<open>Answering pipeline\<close>

text \<open>
  \<open>serve\<close>: store the user turn, build the query engine on \<open>self.index\<close> and query it,
  store the assistant turn, return the text. An exception of any step ends the call with
  the state reached so far.
\<close>

definition serve :: "str \<Rightarrow> str \<Rightarrow> server \<Rightarrow> (exc + str) \<times> server" where
  "serve msg i s =
     (case store_message i \<lparr>role = ascii ''user'', content = msg\<rparr> s of
        (Inl e, s1) \<Rightarrow> (Inl e, s1)
      | (Inr u, s1) \<Rightarrow>
          (case index s1 of
             None \<Rightarrow>
               (Inl (AttributeError
                  ([39] @ ascii ''NoneType'' @ [39] @ ascii '' object has no attribute '' @
                   [39] @ ascii ''as_query_engine'' @ [39])), s1)
           | Some query_engine \<Rightarrow>
               (let s2 = s1\<lparr>engine_calls := engine_calls s1 @ [msg]\<rparr> in
                case query_engine msg of
                  Inl e \<Rightarrow> (Inl e, s2)
                | Inr response \<Rightarrow>
                    (case store_message i \<lparr>role = ascii ''assistant'', content = response\<rparr> s2 of
                       (Inl e, s3) \<Rightarrow> (Inl e, s3)
                     | (Inr u, s3) \<Rightarrow> (Inr response, s3)))))"

section \<open>Transport layer\<close>

text \<open>\<open>HTTPException(status_code=..., detail=...)\<close>.\<close>

datatype http_exception = HTTPException (status_code: nat) (detail: str)

text \<open>\<open>sep.join(parts)\<close>.\<close>

fun join :: "str \<Rightarrow> str list \<Rightarrow> str" where
  "join sep [] = []"
| "join sep [p] = p"
| "join sep (p # q # ps) = p @ sep @ join sep (q # ps)"

text \<open>
  The handler of \<open>POST /chat\<close>. \<open>serve\<close> returns a \<open>str\<close>, so \<open>"".join(response_gen)\<close>
  joins its characters. Every exception becomes the HTTP error with status 500 and
  \<open>str(e)\<close> as detail.
\<close>

definition query_pipeline :: "request_body \<Rightarrow> server \<Rightarrow> (http_exception + str) \<times> server" where
  "query_pipeline body s =
     (case serve (user_message body) (conversation_id body) s of
        (Inr response_gen, s') \<Rightarrow> (Inr (join [] (map (\<lambda>ch. [ch]) response_gen)), s')
      | (Inl e, s') \<Rightarrow> (Inl (HTTPException 500 (str_of_exc e)), s'))"

text \<open>The handler of \<open>POST /start_conversation\<close>.\<close>

definition start_conversation :: "str \<Rightarrow> real \<Rightarrow> server \<Rightarrow> (http_exception + str) \<times> server" where
  "start_conversation uuid4 now s =
     (case start_new_conversation uuid4 now s of (i, s') \<Rightarrow> (Inr i, s'))"

text \<open>The handler of \<open>GET /history/{conversation_id}\<close>.\<close>

definition get_conversation_history :: "str \<Rightarrow> server \<Rightarrow> http_exception + message list" where
  "get_conversation_history i s =
     (case get_conversation i s of
        Inr history \<Rightarrow> Inr history
      | Inl e \<Rightarrow> Inl (HTTPException 500 (str_of_exc e)))"

text \<open>The classes of HTTP status codes: 4xx is a client error, 5xx a server error.\<close>

definition client_error :: "http_exception \<Rightarrow> bool" where
  "client_error h = (400 \<le> status_code h \<and> status_code h < 500)"

definition server_error :: "http_exception \<Rightarrow> bool" where
  "server_error h = (500 \<le> status_code h \<and> status_code h < 600)"

section \<open>Validation of the chat request\<close>

text \<open>
  The handler of \<open>POST /chat\<close> declares its parameter as \<open>body: RequestBody\<close>, so the
  framework parses the JSON body of the request and validates it against the model before
  it calls the handler. A JSON value, as \<open>json.loads\<close> builds it:
\<close>

datatype json =
    JNull
  | JBool bool
  | JNumber real
  | JString str
  | JArray "json list"
  | JObject "(str \<times> json) list"







section \<open>Document loader\<close>

text \<open>
  A cell of the data frame row. \<open>pd.isna\<close> holds of a missing cell, which \<open>read_csv\<close>
  fills with the float NaN; a cell that is present is given by the text that the f-string
  renders for it.
\<close>

datatype cell = NaN | Val str

fun isna :: "cell \<Rightarrow> bool" where
  "isna NaN = True"
| "isna (Val v) = False"

text \<open>\<open>f"{cell}"\<close>: the float NaN renders as \<open>nan\<close>.\<close>

fun format :: "cell \<Rightarrow> str" where
  "format NaN = ascii ''nan''"
| "format (Val v) = v"

text \<open>The row \<open>pd.Series\<close> of the recipe table, with the columns that the template reads:
  \<open>name\<close>, \<open>Category\<close>, \<open>Ingredients\<close>, \<open>Preparation Time\<close>, \<open>Total Time\<close>,
  \<open>Number of Servings\<close>, \<open>Keywords\<close>, \<open>Instructions\<close>.\<close>

record row =
  name :: cell
  Category :: cell
  Ingredients :: cell
  Preparation_Time :: cell
  Total_Time :: cell
  Number_of_Servings :: cell
  Keywords :: cell
  Instructions :: cell

text \<open>The Greek literals of the template, as code points.\<close>

text \<open>Line 85, before the name: Eta, space, the words for recipe and for, space.\<close>

definition lit_recipe_for :: str where
  "lit_recipe_for =
    [919, 32, 963, 965, 957, 964, 945, 947, 942, 32, 947, 953, 945, 32]"

text \<open>Line 85, between name and category.\<close>

definition lit_is_a :: str where
  "lit_is_a =
    [32, 949, 943, 957, 945, 953, 32, 941, 957, 945, 32]"

text \<open>Lines 85 and 86, between category and ingredients (two adjacent literals).\<close>

definition lit_that_needs :: str where
  "lit_that_needs =
    [32, 960, 959, 965, 32, 967, 961, 949, 953, 940, 950, 949, 964, 945, 953, 32, 964,
     945, 32, 949, 958, 942, 962, 32, 965, 955, 953, 954, 940, 58, 32]"

text \<open>Line 88, before the preparation time.\<close>

definition lit_preparation_time :: str where
  "lit_preparation_time =
    [904, 967, 949, 953, 32, 967, 961, 972, 957, 959, 32, 960, 961, 959, 949, 964, 959,
     953, 956, 945, 963, 943, 945, 962, 32]"

text \<open>Line 90, before the total time.\<close>

definition lit_total_time :: str where
  "lit_total_time =
    [954, 945, 953, 32, 963, 965, 957, 959, 955, 953, 954, 940, 32, 960, 945, 943, 961,
     957, 949, 953, 32]"

text \<open>Line 92, before the number of servings.\<close>

definition lit_servings :: str where
  "lit_servings =
    [927, 953, 32, 956, 949, 961, 943, 948, 949, 962, 32, 960, 959, 965, 32, 966, 964,
     953, 940, 967, 957, 949, 953, 32, 949, 943, 957, 945, 953, 32]"

text \<open>Line 94, before the keywords.\<close>

definition lit_keywords :: str where
  "lit_keywords =
    [935, 945, 961, 945, 954, 964, 951, 961, 953, 963, 964, 953, 954, 941, 962, 32,
     955, 941, 958, 949, 953, 962, 32, 960, 959, 965, 32, 960, 949, 961, 953, 947, 961,
     940, 966, 959, 965, 957, 32, 945, 965, 964, 942, 32, 964, 951, 32, 963, 965, 957,
     964, 945, 947, 942, 32, 949, 943, 957, 945, 953, 58, 32]"

text \<open>Line 96, before the instructions.\<close>

definition lit_instructions :: str where
  "lit_instructions =
    [927, 32, 964, 961, 972, 960, 959, 962, 32, 960, 961, 959, 949, 964, 959, 953, 956,
     945, 963, 943, 945, 962, 32, 949, 943, 957, 945, 953, 32, 959, 32, 949, 958, 942,
     962, 58, 32]"

text \<open>\<open>recipe_text_template\<close>: the opening sentence, then one \<open>if\<close> for each optional
  column, each appending to \<open>template\<close>.\<close>

definition recipe_text_template :: "row \<Rightarrow> str" where
  "recipe_text_template r =
     (let template = lit_recipe_for @ format (name r) @ lit_is_a @ format (Category r) @
                     lit_that_needs @ format (Ingredients r) @ ascii ''. '';
          template = (if \<not> isna (Preparation_Time r)
                      then template @ lit_preparation_time @ format (Preparation_Time r) @ ascii '' ''
                      else template);
          template = (if \<not> isna (Total_Time r)
                      then template @ lit_total_time @ format (Total_Time r) @ ascii ''. ''
                      else template);
          template = (if \<not> isna (Number_of_Servings r)
                      then template @ lit_servings @ format (Number_of_Servings r) @ ascii ''. ''
                      else template);
          template = (if \<not> isna (Keywords r)
                      then template @ lit_keywords @ format (Keywords r) @ ascii ''.''
                      else template);
          template = (if \<not> isna (Instructions r)
                      then template @ lit_instructions @ format (Instructions r) @ ascii ''.''
                      else template)
      in template)"

text \<open>\<open>Document(text=t)\<close>.\<close>

datatype document = Document (text_of: str)

text \<open>\<open>load_documents\<close>, on the rows that \<open>read_csv\<close> has read.\<close>

definition load_documents :: "row list \<Rightarrow> document list" where
  "load_documents recipes = map (\<lambda>r. Document (recipe_text_template r)) recipes"

text \<open>
  The template as the list of its optional clauses, in the order of the spec (preparation
  time, total time, serving count, keywords, instructions): each is a column and the
  rendering of a value that is present.
\<close>

definition optional_clauses :: "((row \<Rightarrow> cell) \<times> (str \<Rightarrow> str)) list" where
  "optional_clauses =
     [(Preparation_Time, \<lambda>v. lit_preparation_time @ v @ ascii '' ''),
      (Total_Time, \<lambda>v. lit_total_time @ v @ ascii ''. ''),
      (Number_of_Servings, \<lambda>v. lit_servings @ v @ ascii ''. ''),
      (Keywords, \<lambda>v. lit_keywords @ v @ ascii ''.''),
      (Instructions, \<lambda>v. lit_instructions @ v @ ascii ''.'')]"

text \<open>The clause of a rule on a row: nothing when the cell is missing.\<close>

fun clause :: "row \<Rightarrow> (row \<Rightarrow> cell) \<times> (str \<Rightarrow> str) \<Rightarrow> str" where
  "clause r (field, render) = (case field r of NaN \<Rightarrow> [] | Val v \<Rightarrow> render v)"

text \<open>The opening sentence, over the three columns that are always rendered.\<close>

definition opening_sentence :: "row \<Rightarrow> str" where
  "opening_sentence r = lit_recipe_for @ format (name r) @ lit_is_a @ format (Category r) @
               lit_that_needs @ format (Ingredients r) @ ascii ''. ''"

section \<open>Chunker\<close>

text \<open>
  The generator \<open>batch(iterable, n)\<close> of \<open>chunk_documents\<close>: \<open>list(islice(it, n))\<close> takes
  the next \<open>n\<close> items, and the loop ends at the first empty chunk.
\<close>

function batch :: "'a list \<Rightarrow> nat \<Rightarrow> 'a list list" where
  "batch it n = (if take n it = [] then [] else take n it # batch (drop n it) n)"
  by pat_completeness auto
termination
  by (relation "measure (\<lambda>(it, n). length it)") auto

text \<open>The loop over the batches: the splitter runs on each batch and its nodes extend
  \<open>nodes\<close>; an exception of the splitter ends the loop.\<close>

fun extend_nodes :: "('d list \<Rightarrow> exc + 'n list) \<Rightarrow> 'd list list \<Rightarrow> 'n list \<Rightarrow> exc + 'n list" where
  "extend_nodes splitter [] nodes = Inr nodes"
| "extend_nodes splitter (doc_batch # rest) nodes =
     (case splitter doc_batch of
        Inl e \<Rightarrow> Inl e
      | Inr batch_nodes \<Rightarrow> extend_nodes splitter rest (nodes @ batch_nodes))"

text \<open>
  \<open>chunk_documents\<close>. The splitter \<open>splitter.get_nodes_from_documents\<close> is an argument:
  it returns the nodes of a batch or raises. \<open>islice(it, n)\<close> accepts a count from \<open>0\<close> to
  \<open>sys.maxsize\<close> and raises \<open>ValueError\<close> on any other, whatever the iterable holds; the
  first \<open>islice\<close> is built when the loop asks the generator for its first batch.
  \<open>sys.maxsize\<close> is a constant of the platform (\<open>2 ^ 63 - 1\<close> on a 64-bit CPython) and is
  an argument.
\<close>

definition chunk_documents ::
  "int \<Rightarrow> ('d list \<Rightarrow> exc + 'n list) \<Rightarrow> 'd list \<Rightarrow> int \<Rightarrow> exc + 'n list" where
  "chunk_documents maxsize splitter documents batch_size =
     (if batch_size < 0 \<or> maxsize < batch_size
      then Inl (ValueError (ascii ''Stop argument for islice() must be None or an integer: 0 <= x <= sys.maxsize.''))
      else extend_nodes splitter (batch documents (nat batch_size)) [])"

section \<open>Sequences of calls\<close>

text \<open>Storing the messages of a list one after the other, as a caller does; the first
  exception ends the sequence.\<close>

fun store_messages :: "str \<Rightarrow> message list \<Rightarrow> server \<Rightarrow> (exc + unit) \<times> server" where
  "store_messages i [] s = (Inr (), s)"
| "store_messages i (m # ms) s =
     (case store_message i m s of
        (Inl e, s') \<Rightarrow> (Inl e, s')
      | (Inr u, s') \<Rightarrow> store_messages i ms s')"



text \<open>The calls that change the registry, and a server running a sequence of them. A
  \<open>store_message\<close> that raises leaves the state as it was, and the server goes on.\<close>

datatype call =
    Start_new_conversation str real
  | Store_message str message

fun run_call :: "server \<Rightarrow> call \<Rightarrow> server" where
  "run_call s (Start_new_conversation uuid4 now) = snd (start_new_conversation uuid4 now s)"
| "run_call s (Store_message i m) = snd (store_message i m s)"

definition run :: "call list \<Rightarrow> server \<Rightarrow> server" where
  "run calls s = foldl run_call s calls"

text \<open>The retrieval and generation step of \<open>serve\<close> (lines 106 to 110), by itself: what
  the query engine built on \<open>self.index\<close> returns or raises for a message.\<close>

definition answering :: "server \<Rightarrow> str \<Rightarrow> exc + str" where
  "answering s msg =
     (case index s of
        None \<Rightarrow>
          Inl (AttributeError
                 ([39] @ ascii ''NoneType'' @ [39] @ ascii '' object has no attribute '' @
                  [39] @ ascii ''as_query_engine'' @ [39]))
      | Some query_engine \<Rightarrow> query_engine msg)"

section \<open>Properties of the conversation store\<close>

lemma append_to_None: "append_to cs i m = None \<longleftrightarrow> i \<notin> c_id ` set cs"
  by (induction cs) auto

lemma lookup_None: "lookup cs i = None \<longleftrightarrow> i \<notin> c_id ` set cs"
  by (induction cs) auto

text \<open>
  C3. On an id that is absent from the registry, \<open>store_message\<close> and \<open>get_conversation\<close>
  both raise the not-found error (the \<open>ValueError\<close> with the not-found message, which the
  spec calls \<open>ConversationNotFoundError\<close>): neither returns normally, and \<open>store_message\<close>
  leaves the whole server state, the registry included, as it was.
\<close>

theorem unknown_id_raises:
  "\<not> registered i s \<Longrightarrow>
     store_message i m s = (Inl (not_found i), s) \<and>
     get_conversation i s = Inl (not_found i)"
  using append_to_None [of "conversations s" i m] lookup_None [of "conversations s" i]
  by (simp add: registered_def store_message_def get_conversation_def)

theorem unknown_id_raises_witness:
  "\<not> registered (ascii ''stale'') Server_init \<and>
   store_message (ascii ''stale'') \<lparr>role = ascii ''user'', content = ascii ''hi''\<rparr> Server_init
     = (Inl (not_found (ascii ''stale'')), Server_init) \<and>
   get_conversation (ascii ''stale'') Server_init = Inl (not_found (ascii ''stale''))"
  using unknown_id_raises [of "ascii ''stale''" Server_init
      "\<lparr>role = ascii ''user'', content = ascii ''hi''\<rparr>"]
  by (simp add: registered_def Server_init_def)

lemma append_to_lookup:
  "append_to cs i m = Some cs' \<Longrightarrow>
     lookup cs' j = (if j = i then map_option (\<lambda>l. l @ [m]) (lookup cs i) else lookup cs j)"
  by (induction cs arbitrary: cs') (auto split: if_splits)

lemma append_to_Some:
  "lookup cs i = Some l \<Longrightarrow> \<exists>cs'. append_to cs i m = Some cs'"
  by (induction cs) auto

lemma append_to_keys:
  "append_to cs i m = Some cs' \<Longrightarrow>
     map start_time cs' = map start_time cs \<and> map c_id cs' = map c_id cs"
  by (induction cs arbitrary: cs') (auto split: if_splits)

text \<open>A \<open>store_message\<close> on a registered id returns normally, appends to the log of that
  id and touches nothing else.\<close>

lemma store_message_known:
  assumes "get_conversation i s = Inr l"
  shows "fst (store_message i m s) = Inr ()"
    and "get_conversation j (snd (store_message i m s)) =
           (if j = i then Inr (l @ [m]) else get_conversation j s)"
    and "index (snd (store_message i m s)) = index s"
    and "engine_calls (snd (store_message i m s)) = engine_calls s"
proof -
  from assms have l: "lookup (conversations s) i = Some l"
    by (auto simp: get_conversation_def split: option.splits)
  then obtain cs' where cs': "append_to (conversations s) i m = Some cs'"
    using append_to_Some by blast
  show "fst (store_message i m s) = Inr ()"
    using cs' by (simp add: store_message_def)
  show "get_conversation j (snd (store_message i m s)) =
           (if j = i then Inr (l @ [m]) else get_conversation j s)"
    using cs' l append_to_lookup [OF cs', of j]
    by (simp add: store_message_def get_conversation_def)
  show "index (snd (store_message i m s)) = index s"
    using cs' by (simp add: store_message_def)
  show "engine_calls (snd (store_message i m s)) = engine_calls s"
    using cs' by (simp add: store_message_def)
qed

text \<open>
  C6. For an id that is registered with log \<open>l\<close>, storing the messages \<open>ms\<close> one after the
  other never raises, and \<open>get_conversation\<close> then returns \<open>l\<close> followed by \<open>ms\<close>: the
  stored messages in append order, none lost, none reordered. On a fresh conversation
  \<open>l\<close> is empty and the result is exactly \<open>ms\<close>.
\<close>

theorem store_then_get:
  "get_conversation i s = Inr l \<Longrightarrow>
     fst (store_messages i ms s) = Inr () \<and>
     get_conversation i (snd (store_messages i ms s)) = Inr (l @ ms)"
proof (induction ms arbitrary: s l)
  case Nil
  then show ?case by simp
next
  case (Cons m ms)
  obtain r s1 where st: "store_message i m s = (r, s1)"
    by (cases "store_message i m s")
  have r: "r = Inr ()"
    using store_message_known(1) [OF Cons.prems, of m] st by simp
  have g: "get_conversation i s1 = Inr (l @ [m])"
    using store_message_known(2) [OF Cons.prems, of i m] st by simp
  show ?case using Cons.IH [OF g] st r by simp
qed

theorem store_then_get_witness:
  "get_conversation (ascii ''c1'')
     (snd (start_new_conversation (ascii ''c1'') 1 Server_init)) = Inr [] \<and>
   get_conversation (ascii ''c1'')
     (snd (store_messages (ascii ''c1'')
        [\<lparr>role = ascii ''user'', content = ascii ''hi''\<rparr>,
         \<lparr>role = ascii ''assistant'', content = ascii ''hello''\<rparr>]
        (snd (start_new_conversation (ascii ''c1'') 1 Server_init))))
     = Inr [\<lparr>role = ascii ''user'', content = ascii ''hi''\<rparr>,
            \<lparr>role = ascii ''assistant'', content = ascii ''hello''\<rparr>]"
proof -
  have g: "get_conversation (ascii ''c1'')
      (snd (start_new_conversation (ascii ''c1'') 1 Server_init)) = Inr []"
    by (simp add: get_conversation_def start_new_conversation_def Server_init_def
        sort_reverse_def)
  show ?thesis
    using store_then_get [OF g, of "[\<lparr>role = ascii ''user'', content = ascii ''hi''\<rparr>,
         \<lparr>role = ascii ''assistant'', content = ascii ''hello''\<rparr>]"] g
    by simp
qed

section \<open>Properties of the answering pipeline\<close>

text \<open>
  C1. On an id that is absent from the registry, \<open>serve\<close> raises the not-found error of
  its first \<open>store_message\<close> and returns the state it was given: the registry is unchanged
  (no conversation is created), and the record of queries handed to the engine is unchanged,
  so the call ends before any retrieval or generation.
\<close>

theorem serve_unknown_id:
  "\<not> registered i s \<Longrightarrow>
     serve msg i s = (Inl (not_found i), s) \<and>
     conversations (snd (serve msg i s)) = conversations s \<and>
     engine_calls (snd (serve msg i s)) = engine_calls s"
  using append_to_None [of "conversations s" i "\<lparr>role = ascii ''user'', content = msg\<rparr>"]
  by (simp add: registered_def serve_def store_message_def)

theorem serve_unknown_id_witness:
  "\<not> registered (ascii ''stale'')
       ((snd (start_new_conversation (ascii ''c1'') 1 Server_init))
          \<lparr>index := Some (\<lambda>q. Inr (ascii ''answer''))\<rparr>) \<and>
   fst (serve (ascii ''hi'') (ascii ''stale'')
       ((snd (start_new_conversation (ascii ''c1'') 1 Server_init))
          \<lparr>index := Some (\<lambda>q. Inr (ascii ''answer''))\<rparr>))
     = Inl (not_found (ascii ''stale'')) \<and>
   engine_calls (snd (serve (ascii ''hi'') (ascii ''stale'')
       ((snd (start_new_conversation (ascii ''c1'') 1 Server_init))
          \<lparr>index := Some (\<lambda>q. Inr (ascii ''answer''))\<rparr>))) = [] \<and>
   map c_id (conversations (snd (serve (ascii ''hi'') (ascii ''stale'')
       ((snd (start_new_conversation (ascii ''c1'') 1 Server_init))
          \<lparr>index := Some (\<lambda>q. Inr (ascii ''answer''))\<rparr>)))) = [ascii ''c1'']"
  using serve_unknown_id [of "ascii ''stale''"
      "(snd (start_new_conversation (ascii ''c1'') 1 Server_init))
          \<lparr>index := Some (\<lambda>q. Inr (ascii ''answer''))\<rparr>" "ascii ''hi''"]
  by (simp add: registered_def start_new_conversation_def Server_init_def sort_reverse_def
      ascii_def)

text \<open>
  C2. For an id that is registered with log \<open>l\<close>, when the retrieval and generation step
  raises \<open>e\<close> (what the spec calls \<open>AnsweringError\<close>), \<open>serve\<close> raises \<open>e\<close>; afterwards the
  log of the id is \<open>l\<close> followed by the user message, which is therefore its last entry
  and is not rolled back; no assistant message follows it, and the log of every other id
  is as before.
\<close>

theorem serve_failure_keeps_user_turn:
  assumes "get_conversation i s = Inr l" and "answering s msg = Inl e"
  shows "fst (serve msg i s) = Inl e \<and>
         get_conversation i (snd (serve msg i s))
           = Inr (l @ [\<lparr>role = ascii ''user'', content = msg\<rparr>]) \<and>
         (\<forall>j. j \<noteq> i \<longrightarrow> get_conversation j (snd (serve msg i s)) = get_conversation j s)"
proof -
  let ?u = "\<lparr>role = ascii ''user'', content = msg\<rparr>"
  obtain r s1 where st: "store_message i ?u s = (r, s1)"
    by (cases "store_message i ?u s")
  have r: "r = Inr ()"
    using store_message_known(1) [OF assms(1), of ?u] st by simp
  have g: "get_conversation j s1 = (if j = i then Inr (l @ [?u]) else get_conversation j s)"
    for j
    using store_message_known(2) [OF assms(1), of j ?u] st by simp
  have ix: "index s1 = index s"
    using store_message_known(3) [OF assms(1), of ?u] st by simp
  show ?thesis
  proof (cases "index s")
    case None
    then show ?thesis using assms(2) st r g ix
      by (simp add: serve_def answering_def)
  next
    case (Some q)
    then have "q msg = Inl e" using assms(2) by (simp add: answering_def)
    then show ?thesis using Some st r g ix
      by (simp add: serve_def get_conversation_def)
  qed
qed

theorem serve_failure_keeps_user_turn_witness:
  "get_conversation (ascii ''c1'')
       ((snd (start_new_conversation (ascii ''c1'') 1 Server_init))
          \<lparr>index := Some (\<lambda>q. Inl (OtherError (ascii ''APIError'') (ascii ''down'')))\<rparr>)
     = Inr [] \<and>
   answering
       ((snd (start_new_conversation (ascii ''c1'') 1 Server_init))
          \<lparr>index := Some (\<lambda>q. Inl (OtherError (ascii ''APIError'') (ascii ''down'')))\<rparr>)
       (ascii ''hi'') = Inl (OtherError (ascii ''APIError'') (ascii ''down'')) \<and>
   fst (serve (ascii ''hi'') (ascii ''c1'')
       ((snd (start_new_conversation (ascii ''c1'') 1 Server_init))
          \<lparr>index := Some (\<lambda>q. Inl (OtherError (ascii ''APIError'') (ascii ''down'')))\<rparr>))
     = Inl (OtherError (ascii ''APIError'') (ascii ''down'')) \<and>
   get_conversation (ascii ''c1'') (snd (serve (ascii ''hi'') (ascii ''c1'')
       ((snd (start_new_conversation (ascii ''c1'') 1 Server_init))
          \<lparr>index := Some (\<lambda>q. Inl (OtherError (ascii ''APIError'') (ascii ''down'')))\<rparr>)))
     = Inr [\<lparr>role = ascii ''user'', content = ascii ''hi''\<rparr>] \<and>
   ascii ''c2'' \<noteq> ascii ''c1'' \<and>
   get_conversation (ascii ''c2'') (snd (serve (ascii ''hi'') (ascii ''c1'')
       ((snd (start_new_conversation (ascii ''c1'') 1 Server_init))
          \<lparr>index := Some (\<lambda>q. Inl (OtherError (ascii ''APIError'') (ascii ''down'')))\<rparr>)))
     = Inl (not_found (ascii ''c2''))"
proof -
  let ?s = "(snd (start_new_conversation (ascii ''c1'') 1 Server_init))
          \<lparr>index := Some (\<lambda>q. Inl (OtherError (ascii ''APIError'') (ascii ''down'')))\<rparr>"
  have n: "ascii ''c2'' \<noteq> ascii ''c1''"
    by (simp add: ascii_def)
  have o: "get_conversation (ascii ''c2'') ?s = Inl (not_found (ascii ''c2''))"
    using n by (simp add: get_conversation_def start_new_conversation_def Server_init_def
        sort_reverse_def)
  have g: "get_conversation (ascii ''c1'') ?s = Inr []"
    by (simp add: get_conversation_def start_new_conversation_def Server_init_def
        sort_reverse_def)
  have a: "answering ?s (ascii ''hi'') = Inl (OtherError (ascii ''APIError'') (ascii ''down''))"
    by (simp add: answering_def start_new_conversation_def)
  show ?thesis
    using serve_failure_keeps_user_turn [OF g a] g a n o by simp
qed

section \<open>Properties of creation and listing\<close>

lemma sort_reverse_descending:
  "sorted_wrt (\<ge>) (map key (sort_reverse key xs))"
proof -
  have "sorted (map key (sort_key key (rev xs)))"
    by (rule sorted_sort_key)
  then have "sorted_wrt (\<ge>) (rev (map key (sort_key key (rev xs))))"
    by (simp only: sorted_wrt_rev)
  then show ?thesis
    by (simp add: sort_reverse_def rev_map)
qed


lemma run_call_descending:
  assumes "sorted_wrt (\<ge>) (map start_time (conversations s))"
  shows "sorted_wrt (\<ge>) (map start_time (conversations (run_call s c)))"
proof (cases c)
  case (Start_new_conversation u t)
  then show ?thesis
    by (simp add: start_new_conversation_def sort_reverse_descending)
next
  case (Store_message i m)
  show ?thesis
  proof (cases "append_to (conversations s) i m")
    case None
    then show ?thesis using assms Store_message by (simp add: store_message_def)
  next
    case (Some cs')
    then show ?thesis
      using assms Store_message append_to_keys [OF Some]
      by (simp add: store_message_def)
  qed
qed

lemma run_descending:
  "sorted_wrt (\<ge>) (map start_time (conversations s)) \<Longrightarrow>
     sorted_wrt (\<ge>) (map start_time (conversations (run calls s)))"
  unfolding run_def
  by (induction calls arbitrary: s) (simp_all add: run_call_descending)

text \<open>
  C5. After any finite sequence of \<open>start_new_conversation\<close> and \<open>store_message\<close> calls
  on a new server, whatever the ids and the clock readings, \<open>get_all_conversations\<close>
  returns one summary for each conversation of the registry, in the order of the registry
  and with its id and start time, and the start times of the listing are in descending
  order (the most recent first).
\<close>

theorem listing_sorted_descending:
  "map s_id (get_all_conversations (run calls Server_init))
     = map c_id (conversations (run calls Server_init)) \<and>
   map s_start_time (get_all_conversations (run calls Server_init))
     = map start_time (conversations (run calls Server_init)) \<and>
   sorted_wrt (\<ge>) (map s_start_time (get_all_conversations (run calls Server_init)))"
proof -
  have "sorted_wrt (\<ge>) (map start_time (conversations Server_init))"
    by (simp add: Server_init_def)
  then have "sorted_wrt (\<ge>) (map start_time (conversations (run calls Server_init)))"
    by (rule run_descending)
  then show ?thesis
    by (simp add: get_all_conversations_def comp_def)
qed

theorem listing_sorted_descending_witness:
  "sorted_wrt (\<ge>) (map s_start_time (get_all_conversations
     (run [Start_new_conversation (ascii ''a'') 5,
           Start_new_conversation (ascii ''b'') 7,
           Store_message (ascii ''a'') \<lparr>role = ascii ''user'', content = ascii ''hi''\<rparr>,
           Start_new_conversation (ascii ''c'') 6] Server_init))) \<and>
   get_all_conversations
     (run [Start_new_conversation (ascii ''a'') 5,
           Start_new_conversation (ascii ''b'') 7,
           Store_message (ascii ''a'') \<lparr>role = ascii ''user'', content = ascii ''hi''\<rparr>,
           Start_new_conversation (ascii ''c'') 6] Server_init)
   = [\<lparr>s_id = ascii ''b'', s_start_time = 7\<rparr>,
      \<lparr>s_id = ascii ''c'', s_start_time = 6\<rparr>,
      \<lparr>s_id = ascii ''a'', s_start_time = 5\<rparr>]"
  using listing_sorted_descending [of "[Start_new_conversation (ascii ''a'') 5,
           Start_new_conversation (ascii ''b'') 7,
           Store_message (ascii ''a'') \<lparr>role = ascii ''user'', content = ascii ''hi''\<rparr>,
           Start_new_conversation (ascii ''c'') 6]"]
  by (simp add: run_def get_all_conversations_def start_new_conversation_def
      store_message_def sort_reverse_def Server_init_def ascii_def)









section \<open>Properties of the transport layer\<close>

text \<open>
  C4, as the spec states it, fails: the handlers make no exception of the not-found error.
  On an unknown id both \<open>GET /history\<close> and \<open>POST /chat\<close> answer with status 500, a
  server error and not a client error.
\<close>

theorem not_found_maps_to_500:
  "get_conversation_history (ascii ''stale'') Server_init
     = Inl (HTTPException 500 (ascii ''Conversation ID stale not found.'')) \<and>
   fst (query_pipeline
          \<lparr>conversation_id = ascii ''stale'', user_message = ascii ''hi'', messages = []\<rparr>
          Server_init)
     = Inl (HTTPException 500 (ascii ''Conversation ID stale not found.'')) \<and>
   \<not> client_error (HTTPException 500 (ascii ''Conversation ID stale not found.'')) \<and>
   server_error (HTTPException 500 (ascii ''Conversation ID stale not found.''))"
  by (simp add: get_conversation_history_def get_conversation_def query_pipeline_def serve_def
      store_message_def Server_init_def not_found_def client_error_def server_error_def ascii_def)

text \<open>
  C4, amended. Every exception of the components, the not-found error included, maps to
  the HTTP error with status 500 and the message of the exception as detail: for the
  history handler every exception of \<open>get_conversation\<close>, for the chat handler every
  exception of \<open>serve\<close>, and in particular on an unknown id the not-found message. Status
  500 is a server error and not a client error.
\<close>

theorem transport_errors_are_500:
  "(get_conversation i s = Inl e \<longrightarrow>
      get_conversation_history i s = Inl (HTTPException 500 (str_of_exc e))) \<and>
   (fst (serve (user_message body) (conversation_id body) s) = Inl e' \<longrightarrow>
      fst (query_pipeline body s) = Inl (HTTPException 500 (str_of_exc e'))) \<and>
   (\<not> registered i s \<longrightarrow>
      get_conversation_history i s = Inl (HTTPException 500 (str_of_exc (not_found i)))) \<and>
   (\<not> registered (conversation_id body) s \<longrightarrow>
      fst (query_pipeline body s)
        = Inl (HTTPException 500 (str_of_exc (not_found (conversation_id body))))) \<and>
   server_error (HTTPException 500 d) \<and> \<not> client_error (HTTPException 500 d)"
proof -
  have a: "\<not> registered j s \<Longrightarrow> get_conversation j s = Inl (not_found j)" for j
    using lookup_None [of "conversations s" j]
    by (simp add: registered_def get_conversation_def)
  have b: "\<not> registered j s \<Longrightarrow> fst (serve m j s) = Inl (not_found j)" for j m
    using append_to_None [of "conversations s" j "\<lparr>role = ascii ''user'', content = m\<rparr>"]
    by (simp add: registered_def serve_def store_message_def)
  have c': "fst (serve (user_message body) (conversation_id body) s) = Inl x \<Longrightarrow>
      fst (query_pipeline body s) = Inl (HTTPException 500 (str_of_exc x))" for x
    by (cases "serve (user_message body) (conversation_id body) s") (simp add: query_pipeline_def)
  show ?thesis
    using a [of i] b [of "conversation_id body" "user_message body"] c'
    by (simp add: get_conversation_history_def server_error_def client_error_def)
qed

theorem transport_errors_are_500_witness:
  "get_conversation (ascii ''stale'')
       (snd (start_new_conversation (ascii ''c1'') 1 Server_init))
     = Inl (not_found (ascii ''stale'')) \<and>
   fst (serve (ascii ''hi'') (ascii ''stale'')
          (snd (start_new_conversation (ascii ''c1'') 1 Server_init)))
     = Inl (not_found (ascii ''stale'')) \<and>
   \<not> registered (ascii ''stale'') (snd (start_new_conversation (ascii ''c1'') 1 Server_init)) \<and>
   get_conversation_history (ascii ''stale'')
       (snd (start_new_conversation (ascii ''c1'') 1 Server_init))
     = Inl (HTTPException 500 (ascii ''Conversation ID stale not found.'')) \<and>
   fst (query_pipeline
          \<lparr>conversation_id = ascii ''stale'', user_message = ascii ''hi'', messages = []\<rparr>
          (snd (start_new_conversation (ascii ''c1'') 1 Server_init)))
     = Inl (HTTPException 500 (ascii ''Conversation ID stale not found.''))"
  using transport_errors_are_500 [of "ascii ''stale''"
      "snd (start_new_conversation (ascii ''c1'') 1 Server_init)"
      "not_found (ascii ''stale'')"
      "\<lparr>conversation_id = ascii ''stale'', user_message = ascii ''hi'', messages = []\<rparr>"
      "not_found (ascii ''stale'')"]
  by (simp add: get_conversation_def registered_def Server_init_def not_found_def ascii_def
      serve_def store_message_def start_new_conversation_def sort_reverse_def)






section \<open>Properties of the document loader\<close>

text \<open>
  C8. For every row, the rendered text is the opening sentence followed by the clauses of
  the optional columns in the fixed order preparation time, total time, serving count,
  keywords, instructions, where a column contributes its clause when its cell is present
  and nothing when it is missing; the loader renders one document for each row. In
  particular, for a row without preparation time and with keywords \<open>k\<close>, the text has no
  preparation-time clause: after the opening sentence come the total-time and servings
  clauses (each when present), then the keywords clause with \<open>k\<close>, then the instructions
  clause (when present).
\<close>

theorem template_renders_present_clauses:
  "recipe_text_template r = opening_sentence r @ concat (map (clause r) optional_clauses) \<and>
   map fst optional_clauses
     = [Preparation_Time, Total_Time, Number_of_Servings, Keywords, Instructions] \<and>
   load_documents recipes = map (\<lambda>r. Document (recipe_text_template r)) recipes \<and>
   length (load_documents recipes) = length recipes \<and>
   (Preparation_Time r = NaN \<longrightarrow> Keywords r = Val k \<longrightarrow>
      recipe_text_template r =
        opening_sentence r @
        (case Total_Time r of NaN \<Rightarrow> [] | Val v \<Rightarrow> lit_total_time @ v @ ascii ''. '') @
        (case Number_of_Servings r of NaN \<Rightarrow> [] | Val v \<Rightarrow> lit_servings @ v @ ascii ''. '') @
        lit_keywords @ k @ ascii ''.'' @
        (case Instructions r of NaN \<Rightarrow> [] | Val v \<Rightarrow> lit_instructions @ v @ ascii ''.''))"
proof -
  have main: "recipe_text_template r = opening_sentence r @ concat (map (clause r) optional_clauses)"
    by (cases "Preparation_Time r"; cases "Total_Time r"; cases "Number_of_Servings r";
        cases "Keywords r"; cases "Instructions r")
       (simp_all add: recipe_text_template_def opening_sentence_def optional_clauses_def Let_def)
  have scen: "Preparation_Time r = NaN \<Longrightarrow> Keywords r = Val k \<Longrightarrow>
      concat (map (clause r) optional_clauses) =
        (case Total_Time r of NaN \<Rightarrow> [] | Val v \<Rightarrow> lit_total_time @ v @ ascii ''. '') @
        (case Number_of_Servings r of NaN \<Rightarrow> [] | Val v \<Rightarrow> lit_servings @ v @ ascii ''. '') @
        lit_keywords @ k @ ascii ''.'' @
        (case Instructions r of NaN \<Rightarrow> [] | Val v \<Rightarrow> lit_instructions @ v @ ascii ''.'')"
    by (simp add: optional_clauses_def)
  show ?thesis
    using main scen by (simp add: load_documents_def optional_clauses_def)
qed

theorem template_renders_present_clauses_witness:
  "Preparation_Time \<lparr>name = Val (ascii ''Moussaka''), Category = Val (ascii ''main''),
       Ingredients = Val (ascii ''aubergines''), Preparation_Time = NaN,
       Total_Time = Val (ascii ''90''), Number_of_Servings = NaN,
       Keywords = Val (ascii ''oven''), Instructions = NaN\<rparr> = NaN \<and>
   Keywords \<lparr>name = Val (ascii ''Moussaka''), Category = Val (ascii ''main''),
       Ingredients = Val (ascii ''aubergines''), Preparation_Time = NaN,
       Total_Time = Val (ascii ''90''), Number_of_Servings = NaN,
       Keywords = Val (ascii ''oven''), Instructions = NaN\<rparr> = Val (ascii ''oven'') \<and>
   recipe_text_template \<lparr>name = Val (ascii ''Moussaka''), Category = Val (ascii ''main''),
       Ingredients = Val (ascii ''aubergines''), Preparation_Time = NaN,
       Total_Time = Val (ascii ''90''), Number_of_Servings = NaN,
       Keywords = Val (ascii ''oven''), Instructions = NaN\<rparr>
     = lit_recipe_for @ ascii ''Moussaka'' @ lit_is_a @ ascii ''main'' @ lit_that_needs @
       ascii ''aubergines'' @ ascii ''. '' @ lit_total_time @ ascii ''90'' @ ascii ''. '' @
       lit_keywords @ ascii ''oven'' @ ascii ''.''"
  using template_renders_present_clauses [of
      "\<lparr>name = Val (ascii ''Moussaka''), Category = Val (ascii ''main''),
       Ingredients = Val (ascii ''aubergines''), Preparation_Time = NaN,
       Total_Time = Val (ascii ''90''), Number_of_Servings = NaN,
       Keywords = Val (ascii ''oven''), Instructions = NaN\<rparr>" "[]" "ascii ''oven''"]
  by (simp add: opening_sentence_def optional_clauses_def)

section \<open>Properties of the chunker\<close>

declare batch.simps [simp del]

lemma batch_concat: "0 < n \<Longrightarrow> concat (batch xs n) = xs"
proof (induction xs n rule: batch.induct)
  case (1 it n)
  show ?case
  proof (cases "take n it = []")
    case True
    then have e: "it = []" using 1(2) by simp
    have "batch it n = []" using True by (simp add: batch.simps [of it n])
    then show ?thesis using e by simp
  next
    case False
    then show ?thesis using 1 by (simp add: batch.simps [of it n])
  qed
qed

lemma batch_sizes: "b \<in> set (batch xs n) \<Longrightarrow> b \<noteq> [] \<and> length b \<le> n"
proof (induction xs n rule: batch.induct)
  case (1 it n)
  show ?case
  proof (cases "take n it = []")
    case True
    then show ?thesis using 1(2) by (simp add: batch.simps [of it n])
  next
    case False
    then show ?thesis using 1 by (auto simp add: batch.simps [of it n])
  qed
qed

lemma extend_nodes_all:
  "(\<forall>b\<in>set bs. splitter b = Inr (f b)) \<Longrightarrow>
     extend_nodes splitter bs nodes = Inr (nodes @ concat (map f bs))"
  by (induction bs arbitrary: nodes) simp_all

text \<open>
  C9, as the spec states it, fails: a batch size above \<open>sys.maxsize\<close> is positive, and on
  it \<open>islice\<close> raises \<open>ValueError\<close>, so \<open>chunk_documents\<close> returns no chunks: here on
  three documents and a splitter that returns its batch as the nodes, with batch size
  \<open>2 ^ 63\<close> on a 64-bit platform, where one batch of the three documents would be
  within the size.
\<close>

theorem chunk_documents_above_maxsize:
  "(0::int) < 9223372036854775808 \<and>
   chunk_documents 9223372036854775807 Inr [1::nat, 2, 3] 9223372036854775808
     = Inl (ValueError (ascii ''Stop argument for islice() must be None or an integer: 0 <= x <= sys.maxsize.'')) \<and>
   chunk_documents 9223372036854775807 Inr [1::nat, 2, 3] 9223372036854775808
     \<noteq> Inr [1, 2, 3]"
  by (simp add: chunk_documents_def)

text \<open>
  C9, amended. For every document list and every batch size \<open>B\<close> with
  \<open>0 < B \<le> sys.maxsize\<close>, the batches are non-empty, each of at most \<open>B\<close> documents, and
  their concatenation is the document list (they are consecutive and cover it in order);
  when the splitter returns \<open>f b\<close> on every batch \<open>b\<close>, \<open>chunk_documents\<close> returns the
  concatenation of the \<open>f b\<close> in the order of the batches.
\<close>

theorem chunk_documents_batches:
  "0 < B \<Longrightarrow> B \<le> maxsize \<Longrightarrow>
     concat (batch documents (nat B)) = documents \<and>
     (\<forall>b\<in>set (batch documents (nat B)). b \<noteq> [] \<and> int (length b) \<le> B) \<and>
     ((\<forall>b\<in>set (batch documents (nat B)). splitter b = Inr (f b)) \<longrightarrow>
        chunk_documents maxsize splitter documents B
          = Inr (concat (map f (batch documents (nat B)))))"
proof -
  assume B: "0 < B" and M: "B \<le> maxsize"
  then have n: "0 < nat B" by simp
  have sz: "\<forall>b\<in>set (batch documents (nat B)). b \<noteq> [] \<and> int (length b) \<le> B"
    using batch_sizes [of _ documents "nat B"] B by fastforce
  show ?thesis
    using batch_concat [OF n, of documents] sz B M
      extend_nodes_all [of "batch documents (nat B)" splitter f "[]"]
    by (simp add: chunk_documents_def)
qed

theorem chunk_documents_batches_witness:
  "(0::int) < 2 \<and> (2::int) \<le> 9223372036854775807 \<and>
   batch [1::nat, 2, 3, 4, 5] (nat 2) = [[1, 2], [3, 4], [5]] \<and>
   chunk_documents 9223372036854775807 (\<lambda>b. Inr [sum_list b]) [1::nat, 2, 3, 4, 5] 2
     = Inr [3, 7, 5]"
  using chunk_documents_batches [of 2 9223372036854775807 "[1::nat, 2, 3, 4, 5]"
      "\<lambda>b. Inr [sum_list b]" "\<lambda>b. [sum_list b]"]
  by (simp add: batch.simps)

end
